theory Spec2Isabelle
  imports Main "HOL-Library.Char_ord" "HOL-Library.List_Lexorder" "HOL-Library.Sublist"
begin

section \<open>The data layer of ptnotes (src/ptn/database.py)\<close>

text \<open>
  The module keeps every table in an SQLite file and talks to it through
  \<^verbatim>\<open>Database.execute_sql\<close>. A table is modelled as the list of its rows in rowid
  order (the order of insertion), together with the counter that
  \<^verbatim>\<open>integer primary key autoincrement\<close> keeps. Text is \<^typ>\<open>string\<close>; SQLite compares
  text byte by byte (collation BINARY), which is the lexicographic order on \<^typ>\<open>string\<close>
  of HOL-Library.List_Lexorder over HOL-Library.Char_ord.
  A column or parameter is an \<^typ>\<open>'a option\<close> where the source stores NULL in it or
  tests it against \<^verbatim>\<open>None\<close>; \<^term>\<open>None\<close> is then NULL/\<^verbatim>\<open>None\<close>.
  Messages written with \<^verbatim>\<open>self.log.error\<close> are returned by the function that writes
  them; \<^verbatim>\<open>self.log.debug\<close> messages are not modelled.
\<close>

subsection \<open>Python exceptions that leave the module\<close>

datatype py_error = TypeError | ValueError | AttributeError

datatype db_exception = DatabaseException

datatype check = Check_ip | Check_port | Check_protocol | Check_hash

datatype log_record =
    Validation_error check
  | Could_not_find_project nat
  | Could_not_delete_file string

subsection \<open>class Database: the statement executor\<close>

text \<open>
  \<open>faulty\<close> stands for the engine raising \<^verbatim>\<open>sqlite3.Error\<close> on the statements sent
  to this store (file locked or read-only, table gone, disk fault): \<^verbatim>\<open>execute_sql\<close>
  catches it and returns \<^verbatim>\<open>False\<close>. Its first argument says whether the statement
  text is one the engine can parse.
\<close>

record 'r store =
  rows :: "'r list"
  last_id :: nat
  faulty :: bool

definition new_store :: "'r store" where
  "new_store = \<lparr>rows = [], last_id = 0, faulty = False\<rparr>"

definition execute_sql :: "bool \<Rightarrow> 'r store \<Rightarrow> bool" where
  "execute_sql parses s = (parses \<and> \<not> faulty s)"

definition fetchone :: "'a list \<Rightarrow> 'a option" where
  "fetchone rs = (case rs of [] \<Rightarrow> None | r # _ \<Rightarrow> Some r)"

text \<open>INSERT: the new row gets the next autoincrement id and goes last.\<close>

definition sql_insert :: "(nat \<Rightarrow> 'r) \<Rightarrow> 'r store \<Rightarrow> 'r store" where
  "sql_insert mk s = s\<lparr>rows := rows s @ [mk (Suc (last_id s))], last_id := Suc (last_id s)\<rparr>"

text \<open>UPDATE ... SET ... WHERE and DELETE ... WHERE.\<close>

definition sql_update :: "('r \<Rightarrow> bool) \<Rightarrow> ('r \<Rightarrow> 'r) \<Rightarrow> 'r store \<Rightarrow> 'r store" where
  "sql_update cond f s = s\<lparr>rows := map (\<lambda>r. if cond r then f r else r) (rows s)\<rparr>"

definition sql_delete :: "('r \<Rightarrow> bool) \<Rightarrow> 'r store \<Rightarrow> 'r store" where
  "sql_delete cond s = s\<lparr>rows := filter (\<lambda>r. \<not> cond r) (rows s)\<rparr>"

text \<open>SELECT DISTINCT: each value once, at its first occurrence.\<close>

definition sql_distinct :: "'a list \<Rightarrow> 'a list" where
  "sql_distinct xs = rev (remdups (rev xs))"

subsection \<open>class HostDatabase\<close>

record host =
  host_id :: nat
  host_ip :: string
  host_note :: "string option"

text \<open>\<^verbatim>\<open>INSERT INTO hosts (ip) VALUES(?)\<close>: the note of a new row is NULL.\<close>

definition create_host :: "host store \<Rightarrow> string \<Rightarrow> bool \<times> host store" where
  "create_host s ip =
     (if execute_sql True s
      then (True, sql_insert (\<lambda>i. \<lparr>host_id = i, host_ip = ip, host_note = None\<rparr>) s)
      else (False, s))"

text \<open>A sequence of \<^verbatim>\<open>create_host\<close> calls, left to right.\<close>

fun create_hosts :: "host store \<Rightarrow> string list \<Rightarrow> host store" where
  "create_hosts s [] = s"
| "create_hosts s (ip # ips) = create_hosts (snd (create_host s ip)) ips"

text \<open>\<^verbatim>\<open>SELECT DISTINCT ip FROM hosts ORDER BY ip\<close>; a result row is its one column.\<close>

definition get_hosts :: "host store \<Rightarrow> string list" where
  "get_hosts s =
     (if execute_sql True s then sort (sql_distinct (map host_ip (rows s))) else [])"

text \<open>
  \<^verbatim>\<open>SELECT note from hosts WHERE ip=?\<close>, then \<^verbatim>\<open>self.cur.fetchone()['note']\<close>:
  \<^verbatim>\<open>fetchone()\<close> is \<^verbatim>\<open>None\<close> when no row matches, and subscripting \<^verbatim>\<open>None\<close> raises
  \<^verbatim>\<open>TypeError\<close>. The value returned is the column's: \<^term>\<open>None\<close> for NULL.
\<close>

definition get_host_note :: "host store \<Rightarrow> string \<Rightarrow> py_error + string option" where
  "get_host_note s ip =
     (if execute_sql True s
      then (case fetchone (filter (\<lambda>h. host_ip h = ip) (rows s)) of
              None \<Rightarrow> Inl TypeError
            | Some h \<Rightarrow> Inr (host_note h))
      else Inr (Some ''''))"

text \<open>\<^verbatim>\<open>UPDATE hosts SET note=? WHERE ip=?\<close>\<close>

definition update_host_note :: "host store \<Rightarrow> string \<Rightarrow> string \<Rightarrow> bool \<times> host store" where
  "update_host_note s ip note =
     (if execute_sql True s
      then (True, sql_update (\<lambda>h. host_ip h = ip) (\<lambda>h. h\<lparr>host_note := Some note\<rparr>) s)
      else (False, s))"

subsection \<open>The validator (module validate)\<close>

text \<open>
  \<^verbatim>\<open>validate.Validate\<close> is imported by the module and is not part of the sources at
  hand, so its four checks are parameters of the model. \<^verbatim>\<open>create_item\<close> calls each
  check for its effect only and catches \<^verbatim>\<open>AssertionError\<close>: a check is \<^term>\<open>True\<close>
  on the values it lets through and \<^term>\<open>False\<close> on those for which it raises
  \<^verbatim>\<open>AssertionError\<close>.
\<close>

record validate =
  valid_ip :: "string \<Rightarrow> bool"
  valid_port :: "int \<Rightarrow> bool"
  valid_protocol :: "string \<Rightarrow> bool"
  valid_hash :: "string \<Rightarrow> bool"

text \<open>
  One validator to run the model on concrete inputs: ports 0 to 65535, the protocols
  \<^verbatim>\<open>tcp\<close>, \<^verbatim>\<open>udp\<close> and \<^verbatim>\<open>other\<close>, and a non-empty address and hash.
\<close>

definition example_validate :: validate where
  "example_validate =
     \<lparr>valid_ip = (\<lambda>a. a \<noteq> []),
      valid_port = (\<lambda>p. 0 \<le> p \<and> p \<le> 65535),
      valid_protocol = (\<lambda>p. p = ''tcp'' \<or> p = ''udp'' \<or> p = ''other''),
      valid_hash = (\<lambda>h. h \<noteq> [])\<rparr>"

subsection \<open>class ItemDatabase\<close>

record item =
  item_id :: nat
  item_ip :: string
  item_port :: int
  item_protocol :: string
  item_note :: "string option"
  item_hash :: string

text \<open>
  The four checks run in the order ip, port, protocol, hash inside one \<^verbatim>\<open>try\<close>; the
  first \<^verbatim>\<open>AssertionError\<close> is logged and \<^verbatim>\<open>False\<close> is returned before the INSERT.
\<close>

definition create_item ::
  "validate \<Rightarrow> item store \<Rightarrow> string \<Rightarrow> int \<Rightarrow> string \<Rightarrow> string option \<Rightarrow> string
     \<Rightarrow> bool \<times> item store \<times> log_record list" where
  "create_item v s ip port protocol note hash =
     (if \<not> valid_ip v ip then (False, s, [Validation_error Check_ip])
      else if \<not> valid_port v port then (False, s, [Validation_error Check_port])
      else if \<not> valid_protocol v protocol then (False, s, [Validation_error Check_protocol])
      else if \<not> valid_hash v hash then (False, s, [Validation_error Check_hash])
      else if execute_sql True s
        then (True,
              sql_insert (\<lambda>i. \<lparr>item_id = i, item_ip = ip, item_port = port,
                                 item_protocol = protocol, item_note = note,
                                 item_hash = hash\<rparr>) s,
              [])
        else (False, s, []))"

record summary =
  summary_hosts :: "(string \<times> int \<times> string) list"
  summary_ips :: "string list"
  summary_tcp :: "int list"
  summary_udp :: "int list"

text \<open>
  The four SELECTs of \<^verbatim>\<open>get_summary\<close>; each entry of the dictionary keeps its initial
  \<^verbatim>\<open>[]\<close> when its statement fails.
\<close>

definition get_summary :: "item store \<Rightarrow> summary" where
  "get_summary s =
     \<lparr>summary_hosts =
        (if execute_sql True s
         then map (\<lambda>h. (item_ip h, item_port h, item_protocol h))
                (filter (\<lambda>h. item_port h \<noteq> 0) (rows s))
         else []),
      summary_ips =
        (if execute_sql True s then sql_distinct (map item_ip (rows s)) else []),
      summary_tcp =
        (if execute_sql True s
         then sort (sql_distinct (map item_port
                (filter (\<lambda>h. item_port h \<noteq> 0 \<and> item_protocol h = ''tcp'') (rows s))))
         else []),
      summary_udp =
        (if execute_sql True s
         then sort (sql_distinct (map item_port
                (filter (\<lambda>h. item_port h \<noteq> 0 \<and> item_protocol h = ''udp'') (rows s))))
         else [])\<rparr>"




text \<open>Python's \<^verbatim>\<open>sep.join(xs)\<close>.\<close>

fun str_join :: "string \<Rightarrow> string list \<Rightarrow> string" where
  "str_join sep [] = []"
| "str_join sep [x] = x"
| "str_join sep (x # y # ys) = x @ sep @ str_join sep (y # ys)"




subsection \<open>class AttackDatabase\<close>

record attack =
  attack_id :: nat
  attack_name :: string
  attack_description :: string
  attack_items :: string
  attack_note :: string

definition create_attack ::
  "attack store \<Rightarrow> string \<Rightarrow> string \<Rightarrow> string list \<Rightarrow> bool \<times> attack store" where
  "create_attack s name description items =
     (if execute_sql True s
      then (True,
            sql_insert (\<lambda>i. \<lparr>attack_id = i, attack_name = name,
                               attack_description = description,
                               attack_items = str_join '','' items, attack_note = ''''\<rparr>) s)
      else (False, s))"

definition get_attack :: "attack store \<Rightarrow> nat \<Rightarrow> attack option" where
  "get_attack s aid =
     (if execute_sql True s then fetchone (filter (\<lambda>a. attack_id a = aid) (rows s)) else None)"

definition get_attacks :: "attack store \<Rightarrow> (nat \<times> string \<times> string) list" where
  "get_attacks s =
     (if execute_sql True s
      then map (\<lambda>a. (attack_id a, attack_name a, attack_description a)) (rows s)
      else [])"

definition update_attack_hosts :: "attack store \<Rightarrow> nat \<Rightarrow> string list \<Rightarrow> bool \<times> attack store" where
  "update_attack_hosts s aid items =
     (if execute_sql True s
      then (True, sql_update (\<lambda>a. attack_id a = aid)
                    (\<lambda>a. a\<lparr>attack_items := str_join '','' items\<rparr>) s)
      else (False, s))"

text \<open>
  Python's \<^verbatim>\<open>s.split(',')\<close>, with which the front end reads the items field back
  (src/ptn/webserver.py, \<^verbatim>\<open>get_attack\<close>): the text between the delimiters, so the empty
  string gives one empty piece. The result is never empty.
\<close>

fun str_split :: "char \<Rightarrow> string \<Rightarrow> string list" where
  "str_split d [] = [[]]"
| "str_split d (c # cs) =
     (if c = d then [] # str_split d cs
      else (case str_split d cs of w # ws \<Rightarrow> (c # w) # ws | [] \<Rightarrow> [[c]]))"

text \<open>Autoincrement never hands out an id twice: every row's id is at most the counter.\<close>

definition attacks_wf :: "attack store \<Rightarrow> bool" where
  "attacks_wf s = list_all (\<lambda>a. attack_id a \<le> last_id s) (rows s)"

subsection \<open>class ImportDatabase\<close>

record imported_file =
  import_id :: nat
  import_filename :: string

subsection \<open>class ScanDatabase\<close>

text \<open>One project's file: the four tables, each behind a connection of its own.\<close>

record scandb =
  itemdb :: "item store"
  attackdb :: "attack store"
  hostdb :: "host store"
  importdb :: "imported_file store"

definition empty_scandb :: scandb where
  "empty_scandb = \<lparr>itemdb = new_store, attackdb = new_store, hostdb = new_store,
                    importdb = new_store\<rparr>"

text \<open>Python's \<^verbatim>\<open>'{0}'.format(n)\<close> for a length \<open>n\<close>: its decimal digits.\<close>

definition digit_char :: "nat \<Rightarrow> char" where
  "digit_char d = ''0123456789'' ! d"

fun str_nat :: "nat \<Rightarrow> string" where
  "str_nat n = (if n < 10 then [digit_char n] else str_nat (n div 10) @ [digit_char (n mod 10)])"

declare str_nat.simps [simp del]

definition get_stats :: "scandb \<Rightarrow> string" where
  "get_stats d =
     (let hosts = length (get_hosts (hostdb d));
          attacks = length (get_attacks (attackdb d))
      in ''Hosts: '' @ str_nat hosts @ ''  Attacks '' @ str_nat attacks)"

subsection \<open>class ProjectDatabase\<close>

record project =
  project_id :: nat
  project_name :: "string option"
  project_note :: "string option"
  project_dbfile :: string

text \<open>
  The registry table and the files under \<^verbatim>\<open>data/\<close>: a path with a file holds that
  file's tables.
\<close>

record world =
  registry :: "project store"
  files :: "string \<rightharpoonup> scandb"

text \<open>
  \<^verbatim>\<open>random.choice(seq)\<close> picks \<^verbatim>\<open>seq[i]\<close> for an index \<open>i\<close> below
  \<^verbatim>\<open>len(seq)\<close>; the generator's output is the argument \<open>r\<close>, reduced to such an index.
  \<open>rnd k\<close> is the output at the \<open>k\<close>-th of the twelve draws.
\<close>

definition random_choice :: "'a list \<Rightarrow> nat \<Rightarrow> 'a" where
  "random_choice xs r = xs ! (r mod length xs)"

definition random_token :: "(nat \<Rightarrow> nat) \<Rightarrow> string" where
  "random_token rnd = map (\<lambda>k. random_choice ''0123456789abcdef'' (rnd k)) [0..<12]"

text \<open>\<^verbatim>\<open>os.path.join(a, b)\<close> of posixpath.\<close>

definition os_path_join :: "string \<Rightarrow> string \<Rightarrow> string" where
  "os_path_join a b =
     (if take 1 b = ''/'' then b
      else if a = [] \<or> drop (length a - 1) a = ''/'' then a @ b
      else a @ ''/'' @ b)"

definition db_path :: "(nat \<Rightarrow> nat) \<Rightarrow> string" where
  "db_path rnd = os_path_join ''data'' (random_token rnd @ ''.sqlite'')"

text \<open>
  \<^verbatim>\<open>ScanDatabase(db_name)\<close>: connecting creates the file when there is none, and each
  of the four constructors runs CREATE TABLE IF NOT EXISTS, raising
  \<^verbatim>\<open>DatabaseException\<close> when \<^verbatim>\<open>execute_sql\<close> returns \<^verbatim>\<open>False\<close>.
\<close>

definition ScanDatabase :: "(string \<rightharpoonup> scandb) \<Rightarrow> string \<Rightarrow> db_exception + (string \<rightharpoonup> scandb)" where
  "ScanDatabase fs filename =
     (case fs filename of
        None \<Rightarrow> Inr (fs(filename \<mapsto> empty_scandb))
      | Some d \<Rightarrow>
          if \<not> execute_sql True (itemdb d) then Inl DatabaseException
          else if \<not> execute_sql True (attackdb d) then Inl DatabaseException
          else if \<not> execute_sql True (hostdb d) then Inl DatabaseException
          else if \<not> execute_sql True (importdb d) then Inl DatabaseException
          else Inr fs)"

definition create_project :: "world \<Rightarrow> string option \<Rightarrow> (nat \<Rightarrow> nat) \<Rightarrow> bool \<times> world" where
  "create_project w name rnd =
     (let db_name = db_path rnd
      in case ScanDatabase (files w) db_name of
           Inl DatabaseException \<Rightarrow> (False, w)
         | Inr fs \<Rightarrow>
             if execute_sql True (registry w)
             then (True, \<lparr>registry = sql_insert (\<lambda>i. \<lparr>project_id = i, project_name = name,
                                                      project_note = None,
                                                      project_dbfile = db_name\<rparr>) (registry w),
                          files = fs\<rparr>)
             else (False, \<lparr>registry = registry w, files = fs\<rparr>))"

text \<open>
  What \<^verbatim>\<open>get_project\<close> returns: the row \<^verbatim>\<open>(name, dbfile, note)\<close> that
  \<^verbatim>\<open>fetchone()\<close> gives, \<^verbatim>\<open>None\<close> when \<^verbatim>\<open>fetchone()\<close> finds no row, or the pair
  \<^verbatim>\<open>(None, None)\<close> when the statement fails.
\<close>

datatype project_lookup =
    Row "string option" string "string option"
  | Py_None
  | None_None

definition get_project :: "world \<Rightarrow> nat \<Rightarrow> project_lookup" where
  "get_project w pid =
     (if execute_sql True (registry w)
      then (case fetchone (filter (\<lambda>p. project_id p = pid) (rows (registry w))) of
              None \<Rightarrow> Py_None
            | Some p \<Rightarrow> Row (project_name p) (project_dbfile p) (project_note p))
      else None_None)"

text \<open>\<^verbatim>\<open>os.remove\<close> inside \<^verbatim>\<open>try\<close>: a missing file is logged, nothing is raised.\<close>

definition delete_file :: "world \<Rightarrow> string \<Rightarrow> world \<times> log_record list" where
  "delete_file w filename =
     (case files w filename of
        None \<Rightarrow> (w, [Could_not_delete_file filename])
      | Some d \<Rightarrow> (w\<lparr>files := (files w)(filename := None)\<rparr>, []))"

text \<open>
  \<^verbatim>\<open>name, db_file, _ = self.get_project(pid)\<close> unpacks three values: \<^verbatim>\<open>None\<close>
  raises \<^verbatim>\<open>TypeError\<close> and the pair \<^verbatim>\<open>(None, None)\<close> raises \<^verbatim>\<open>ValueError\<close>.
  After the test of \<^verbatim>\<open>name\<close> the function goes on to the DELETE; when that fails it
  calls \<^verbatim>\<open>self.error\<close>, an attribute the class does not have. The result is the
  exception raised, if any, the world left behind, and the messages logged.
\<close>

definition delete_project :: "world \<Rightarrow> nat \<Rightarrow> py_error option \<times> world \<times> log_record list" where
  "delete_project w pid =
     (case get_project w pid of
        Py_None \<Rightarrow> (Some TypeError, w, [])
      | None_None \<Rightarrow> (Some ValueError, w, [])
      | Row name db_file note \<Rightarrow>
          (let logged = (if name = None then [Could_not_find_project pid] else [])
           in if execute_sql True (registry w)
              then (let w' = w\<lparr>registry := sql_delete (\<lambda>p. project_id p = pid) (registry w)\<rparr>;
                        (w'', logged') = delete_file w' db_file
                    in (None, w'', logged @ logged'))
              else (Some AttributeError, w, logged)))"

definition empty_world :: world where
  "empty_world = \<lparr>registry = new_store, files = Map.empty\<rparr>"

section \<open>Properties\<close>

subsection \<open>The executor's primitives\<close>

lemma set_sql_distinct: "set (sql_distinct xs) = set xs"
  by (simp add: sql_distinct_def)

lemma distinct_sql_distinct: "distinct (sql_distinct xs)"
  by (simp add: sql_distinct_def)

lemma rows_create_hosts:
  "\<not> faulty s \<Longrightarrow>
     map host_ip (rows (create_hosts s ips)) = map host_ip (rows s) @ ips
     \<and> \<not> faulty (create_hosts s ips)"
  by (induction ips arbitrary: s) (simp_all add: create_host_def execute_sql_def sql_insert_def)

subsection \<open>Host listing\<close>

text \<open>
  C1 (as stated, refuted). The claim says that the listing of \<^verbatim>\<open>get_hosts\<close> is not
  de-duplicated, so that creating one address twice gives two entries. On a fresh store,
  creating \<^verbatim>\<open>10.0.0.1\<close> twice inserts two rows, and \<^verbatim>\<open>get_hosts\<close> lists one entry.
\<close>

theorem get_hosts_duplicates_counterexample:
  "length (rows (create_hosts new_store [''10.0.0.1'', ''10.0.0.1''])) = 2
   \<and> get_hosts (create_hosts new_store [''10.0.0.1'', ''10.0.0.1'']) = [''10.0.0.1'']
   \<and> length (get_hosts (create_hosts new_store [''10.0.0.1'', ''10.0.0.1''])) \<noteq> 2"
  by (simp add: get_hosts_def create_host_def execute_sql_def sql_insert_def new_store_def
      sql_distinct_def)

text \<open>
  C1 (amended). For every store on which the engine executes and every sequence of host
  creations, each creation inserts a row, and \<^verbatim>\<open>get_hosts\<close> returns one entry per
  distinct address among the rows, ordered by address ascending: the listing is sorted, has
  no repetition, and holds exactly the addresses of the rows.
\<close>

theorem get_hosts_sorted_distinct:
  assumes "\<not> faulty s"
  shows "map host_ip (rows (create_hosts s ips)) = map host_ip (rows s) @ ips
       \<and> sorted (get_hosts (create_hosts s ips))
       \<and> distinct (get_hosts (create_hosts s ips))
       \<and> set (get_hosts (create_hosts s ips)) = host_ip ` set (rows s) \<union> set ips"
proof -
  let ?s = "create_hosts s ips"
  from assms have r: "map host_ip (rows ?s) = map host_ip (rows s) @ ips"
    and f: "\<not> faulty ?s"
    using rows_create_hosts by blast+
  from f have g: "get_hosts ?s = sort (sql_distinct (map host_ip (rows ?s)))"
    by (simp add: get_hosts_def execute_sql_def)
  have "set (get_hosts ?s) = set (map host_ip (rows ?s))"
    by (simp add: g set_sql_distinct)
  also have "\<dots> = host_ip ` set (rows s) \<union> set ips"
    by (simp add: r)
  finally have "set (get_hosts ?s) = host_ip ` set (rows s) \<union> set ips" .
  moreover have "sorted (get_hosts ?s)" by (simp add: g)
  moreover have "distinct (get_hosts ?s)" by (simp add: g distinct_sql_distinct)
  ultimately show ?thesis using r by simp
qed

theorem get_hosts_sorted_distinct_witness:
  "\<not> faulty (new_store :: host store)
   \<and> map host_ip (rows (create_hosts new_store [''10.0.0.2'', ''10.0.0.1'', ''10.0.0.2'']))
       = [''10.0.0.2'', ''10.0.0.1'', ''10.0.0.2'']
   \<and> get_hosts (create_hosts new_store [''10.0.0.2'', ''10.0.0.1'', ''10.0.0.2''])
       = [''10.0.0.1'', ''10.0.0.2'']
   \<and> sorted (get_hosts (create_hosts new_store [''10.0.0.2'', ''10.0.0.1'', ''10.0.0.2'']))"
  using get_hosts_sorted_distinct [of new_store "[''10.0.0.2'', ''10.0.0.1'', ''10.0.0.2'']"]
  by (simp add: get_hosts_def create_host_def execute_sql_def sql_insert_def new_store_def
      sql_distinct_def)

subsection \<open>Host notes\<close>

lemma get_host_note_absent:
  assumes "\<not> faulty s" and "ip \<notin> host_ip ` set (rows s)"
  shows "get_host_note s ip = Inl TypeError"
proof -
  from assms(2) have "filter (\<lambda>h. host_ip h = ip) (rows s) = []"
    by (auto simp: filter_empty_conv)
  with assms(1) show ?thesis
    by (simp add: get_host_note_def execute_sql_def fetchone_def)
qed

lemma get_host_note_after_create:
  "get_host_note (snd (create_host new_store ''10.0.0.1'')) ''10.0.0.1'' = Inr None"
  by (simp add: get_host_note_def create_host_def sql_insert_def new_store_def
      execute_sql_def fetchone_def)

text \<open>
  C2 (the code departs from the claim). With no hosts row for the address,
  \<^verbatim>\<open>get_host_note\<close> does not return the empty string: it raises \<^verbatim>\<open>TypeError\<close>.
  Evaluated on the empty hosts table and the address \<^verbatim>\<open>10.0.0.1\<close>.
\<close>

theorem get_host_note_absent_raises:
  "get_host_note new_store ''10.0.0.1'' = Inl TypeError"
  by (simp add: get_host_note_def new_store_def execute_sql_def fetchone_def)

text \<open>
  C10. For every store on which the engine executes, every address and every note,
  \<^verbatim>\<open>update_host_note\<close> returns \<^verbatim>\<open>True\<close>, keeps the number and order of the rows and
  the id counter, keeps the id and the address of every row, sets the note of every row
  whose address is the given one, and leaves every other row as it was.
\<close>

theorem update_host_note_frame:
  assumes "\<not> faulty s"
  shows "fst (update_host_note s ip note)
       \<and> length (rows (snd (update_host_note s ip note))) = length (rows s)
       \<and> last_id (snd (update_host_note s ip note)) = last_id s
       \<and> (\<forall>k < length (rows s).
            host_id (rows (snd (update_host_note s ip note)) ! k) = host_id (rows s ! k)
          \<and> host_ip (rows (snd (update_host_note s ip note)) ! k) = host_ip (rows s ! k)
          \<and> (host_ip (rows s ! k) = ip \<longrightarrow>
               host_note (rows (snd (update_host_note s ip note)) ! k) = Some note)
          \<and> (host_ip (rows s ! k) \<noteq> ip \<longrightarrow>
               rows (snd (update_host_note s ip note)) ! k = rows s ! k))"
  using assms by (simp add: update_host_note_def execute_sql_def sql_update_def)

theorem update_host_note_frame_witness:
  "rows (snd (update_host_note
       \<lparr>rows = [\<lparr>host_id = 1, host_ip = ''10.0.0.1'', host_note = None\<rparr>,
                 \<lparr>host_id = 2, host_ip = ''10.0.0.2'', host_note = Some ''dns''\<rparr>,
                 \<lparr>host_id = 3, host_ip = ''10.0.0.1'', host_note = Some ''old''\<rparr>],
        last_id = 3, faulty = False\<rparr> ''10.0.0.1'' ''foo''))
     = [\<lparr>host_id = 1, host_ip = ''10.0.0.1'', host_note = Some ''foo''\<rparr>,
        \<lparr>host_id = 2, host_ip = ''10.0.0.2'', host_note = Some ''dns''\<rparr>,
        \<lparr>host_id = 3, host_ip = ''10.0.0.1'', host_note = Some ''foo''\<rparr>]
   \<and> fst (update_host_note
       \<lparr>rows = [\<lparr>host_id = 1, host_ip = ''10.0.0.1'', host_note = None\<rparr>,
                 \<lparr>host_id = 2, host_ip = ''10.0.0.2'', host_note = Some ''dns''\<rparr>,
                 \<lparr>host_id = 3, host_ip = ''10.0.0.1'', host_note = Some ''old''\<rparr>],
        last_id = 3, faulty = False\<rparr> ''10.0.0.1'' ''foo'')"
  using update_host_note_frame
    [of "\<lparr>rows = [\<lparr>host_id = 1, host_ip = ''10.0.0.1'', host_note = None\<rparr>,
                  \<lparr>host_id = 2, host_ip = ''10.0.0.2'', host_note = Some ''dns''\<rparr>,
                  \<lparr>host_id = 3, host_ip = ''10.0.0.1'', host_note = Some ''old''\<rparr>],
         last_id = 3, faulty = False\<rparr>" "''10.0.0.1''" "''foo''"]
  by (simp add: update_host_note_def execute_sql_def sql_update_def)

subsection \<open>Items\<close>

text \<open>
  C8. Whenever one of the four checks raises on its argument, \<^verbatim>\<open>create_item\<close> returns
  \<^verbatim>\<open>False\<close> and the items table is as before; the table changes only when all four
  checks pass; and when they pass on a store whose engine executes, the row is inserted
  and \<^verbatim>\<open>True\<close> is returned.
\<close>

theorem create_item_validates:
  "(\<not> (valid_ip v ip \<and> valid_port v port \<and> valid_protocol v protocol \<and> valid_hash v hash)
      \<longrightarrow> \<not> fst (create_item v s ip port protocol note hash)
          \<and> fst (snd (create_item v s ip port protocol note hash)) = s)
   \<and> (fst (snd (create_item v s ip port protocol note hash)) \<noteq> s
      \<longrightarrow> valid_ip v ip \<and> valid_port v port \<and> valid_protocol v protocol \<and> valid_hash v hash)
   \<and> (valid_ip v ip \<and> valid_port v port \<and> valid_protocol v protocol \<and> valid_hash v hash
        \<and> \<not> faulty s
      \<longrightarrow> fst (create_item v s ip port protocol note hash)
          \<and> rows (fst (snd (create_item v s ip port protocol note hash)))
              = rows s @ [\<lparr>item_id = Suc (last_id s), item_ip = ip, item_port = port,
                            item_protocol = protocol, item_note = note, item_hash = hash\<rparr>])"
  by (simp add: create_item_def execute_sql_def sql_insert_def)

theorem create_item_validates_witness:
  "\<not> valid_port example_validate 70000
   \<and> \<not> fst (create_item example_validate new_store ''10.0.0.1'' 70000 ''tcp'' None ''ab12'')
   \<and> fst (snd (create_item example_validate new_store ''10.0.0.1'' 70000 ''tcp'' None ''ab12''))
       = new_store
   \<and> valid_ip example_validate ''10.0.0.1'' \<and> valid_port example_validate 80
   \<and> valid_protocol example_validate ''tcp'' \<and> valid_hash example_validate ''ab12''
   \<and> fst (create_item example_validate new_store ''10.0.0.1'' 80 ''tcp'' None ''ab12'')
   \<and> fst (snd (create_item example_validate new_store ''10.0.0.1'' 80 ''tcp'' None ''ab12''))
       \<noteq> new_store
   \<and> rows (fst (snd (create_item example_validate new_store ''10.0.0.1'' 80 ''tcp'' None ''ab12'')))
       = [\<lparr>item_id = 1, item_ip = ''10.0.0.1'', item_port = 80, item_protocol = ''tcp'',
           item_note = None, item_hash = ''ab12''\<rparr>]"
  using create_item_validates
      [of example_validate "''10.0.0.1''" 70000 "''tcp''" "''ab12''" new_store None]
    create_item_validates
      [of example_validate "''10.0.0.1''" 80 "''tcp''" "''ab12''" new_store None]
  by (simp add: example_validate_def new_store_def create_item_def execute_sql_def
      sql_insert_def)

text \<open>
  C7. On every item store whose engine executes, \<^verbatim>\<open>get_summary\<close> lists an endpoint
  exactly for the rows with a port other than 0, lists every address of the table once
  (rows with port 0 included), and gives the tcp and the udp ports sorted ascending,
  without repetition and without port 0. After inserting \<open>(A, 80, tcp)\<close>, \<open>(A, 53, udp)\<close>
  and \<open>(B, 0, tcp)\<close> into a fresh store, the addresses are \<open>{A, B}\<close>, the tcp ports
  \<open>[80]\<close> and the udp ports \<open>[53]\<close>.
\<close>

theorem get_summary_excludes_port_0:
  fixes s :: "item store" and v :: validate and A B :: string
    and n1 n2 n3 :: "string option" and h1 h2 h3 :: string
  defines "s1 \<equiv> fst (snd (create_item v new_store A 80 ''tcp'' n1 h1))"
  defines "s2 \<equiv> fst (snd (create_item v s1 A 53 ''udp'' n2 h2))"
  defines "s3 \<equiv> fst (snd (create_item v s2 B 0 ''tcp'' n3 h3))"
  assumes "\<not> faulty s"
  shows "((a, p, q) \<in> set (summary_hosts (get_summary s)) \<longleftrightarrow>
            p \<noteq> 0 \<and> (\<exists>h \<in> set (rows s). item_ip h = a \<and> item_port h = p \<and> item_protocol h = q))
       \<and> distinct (summary_ips (get_summary s))
       \<and> set (summary_ips (get_summary s)) = item_ip ` set (rows s)
       \<and> sorted (summary_tcp (get_summary s)) \<and> distinct (summary_tcp (get_summary s))
       \<and> set (summary_tcp (get_summary s))
           = item_port ` {h \<in> set (rows s). item_port h \<noteq> 0 \<and> item_protocol h = ''tcp''}
       \<and> sorted (summary_udp (get_summary s)) \<and> distinct (summary_udp (get_summary s))
       \<and> set (summary_udp (get_summary s))
           = item_port ` {h \<in> set (rows s). item_port h \<noteq> 0 \<and> item_protocol h = ''udp''}
       \<and> (valid_ip v A \<and> valid_ip v B \<and> valid_port v 80 \<and> valid_port v 53 \<and> valid_port v 0
            \<and> valid_protocol v ''tcp'' \<and> valid_protocol v ''udp''
            \<and> valid_hash v h1 \<and> valid_hash v h2 \<and> valid_hash v h3
          \<longrightarrow> set (summary_ips (get_summary s3)) = {A, B}
              \<and> summary_tcp (get_summary s3) = [80]
              \<and> summary_udp (get_summary s3) = [53]
              \<and> summary_hosts (get_summary s3) = [(A, 80, ''tcp''), (A, 53, ''udp'')])"
proof -
  from assms(4) have e: "execute_sql True s" by (simp add: execute_sql_def)
  have 1: "(a, p, q) \<in> set (summary_hosts (get_summary s)) \<longleftrightarrow>
            p \<noteq> 0 \<and> (\<exists>h \<in> set (rows s). item_ip h = a \<and> item_port h = p \<and> item_protocol h = q)"
    using e by (auto simp: get_summary_def)
  have 2: "distinct (summary_ips (get_summary s))"
    "set (summary_ips (get_summary s)) = item_ip ` set (rows s)"
    using e by (simp_all add: get_summary_def distinct_sql_distinct set_sql_distinct)
  have 3: "sorted (summary_tcp (get_summary s))" "distinct (summary_tcp (get_summary s))"
    "set (summary_tcp (get_summary s))
       = item_port ` {h \<in> set (rows s). item_port h \<noteq> 0 \<and> item_protocol h = ''tcp''}"
    using e by (simp_all add: get_summary_def distinct_sql_distinct set_sql_distinct)
  have 4: "sorted (summary_udp (get_summary s))" "distinct (summary_udp (get_summary s))"
    "set (summary_udp (get_summary s))
       = item_port ` {h \<in> set (rows s). item_port h \<noteq> 0 \<and> item_protocol h = ''udp''}"
    using e by (simp_all add: get_summary_def distinct_sql_distinct set_sql_distinct)
  have 5: "set (summary_ips (get_summary s3)) = {A, B}
              \<and> summary_tcp (get_summary s3) = [80]
              \<and> summary_udp (get_summary s3) = [53]
              \<and> summary_hosts (get_summary s3) = [(A, 80, ''tcp''), (A, 53, ''udp'')]"
    if "valid_ip v A \<and> valid_ip v B \<and> valid_port v 80 \<and> valid_port v 53 \<and> valid_port v 0
            \<and> valid_protocol v ''tcp'' \<and> valid_protocol v ''udp''
            \<and> valid_hash v h1 \<and> valid_hash v h2 \<and> valid_hash v h3"
  proof -
    from that have r: "rows s3 =
       [\<lparr>item_id = 1, item_ip = A, item_port = 80, item_protocol = ''tcp'', item_note = n1, item_hash = h1\<rparr>,
        \<lparr>item_id = 2, item_ip = A, item_port = 53, item_protocol = ''udp'', item_note = n2, item_hash = h2\<rparr>,
        \<lparr>item_id = 3, item_ip = B, item_port = 0, item_protocol = ''tcp'', item_note = n3, item_hash = h3\<rparr>]"
      and f: "\<not> faulty s3"
      by (simp_all add: s1_def s2_def s3_def create_item_def execute_sql_def sql_insert_def
          new_store_def)
    show ?thesis
      using f by (auto simp add: get_summary_def execute_sql_def r set_sql_distinct)
        (simp_all add: sql_distinct_def)
  qed
  from 1 2 3 4 5 show ?thesis by blast
qed


theorem get_summary_excludes_port_0_witness:
  "\<not> faulty \<lparr>rows = [\<lparr>item_id = 1, item_ip = ''10.0.0.1'', item_port = 80, item_protocol = ''tcp'',
                          item_note = None, item_hash = ''ab12''\<rparr>,
                        \<lparr>item_id = 2, item_ip = ''10.0.0.1'', item_port = 53, item_protocol = ''udp'',
                          item_note = None, item_hash = ''cd34''\<rparr>,
                        \<lparr>item_id = 3, item_ip = ''10.0.0.2'', item_port = 0, item_protocol = ''tcp'',
                          item_note = None, item_hash = ''ef56''\<rparr>],
               last_id = 3, faulty = False\<rparr>
   \<and> get_summary \<lparr>rows = [\<lparr>item_id = 1, item_ip = ''10.0.0.1'', item_port = 80, item_protocol = ''tcp'',
                          item_note = None, item_hash = ''ab12''\<rparr>,
                        \<lparr>item_id = 2, item_ip = ''10.0.0.1'', item_port = 53, item_protocol = ''udp'',
                          item_note = None, item_hash = ''cd34''\<rparr>,
                        \<lparr>item_id = 3, item_ip = ''10.0.0.2'', item_port = 0, item_protocol = ''tcp'',
                          item_note = None, item_hash = ''ef56''\<rparr>],
               last_id = 3, faulty = False\<rparr>
     = \<lparr>summary_hosts = [(''10.0.0.1'', 80, ''tcp''), (''10.0.0.1'', 53, ''udp'')],
        summary_ips = [''10.0.0.1'', ''10.0.0.2''],
        summary_tcp = [80], summary_udp = [53]\<rparr>
   \<and> valid_ip example_validate ''10.0.0.1'' \<and> valid_ip example_validate ''10.0.0.2''
   \<and> valid_port example_validate 80 \<and> valid_port example_validate 53
   \<and> valid_port example_validate 0
   \<and> valid_protocol example_validate ''tcp'' \<and> valid_protocol example_validate ''udp''
   \<and> valid_hash example_validate ''ab12'' \<and> valid_hash example_validate ''cd34''
   \<and> valid_hash example_validate ''ef56''
   \<and> summary_tcp (get_summary
         (fst (snd (create_item example_validate
           (fst (snd (create_item example_validate
             (fst (snd (create_item example_validate new_store
                ''10.0.0.1'' 80 ''tcp'' None ''ab12'')))
             ''10.0.0.1'' 53 ''udp'' None ''cd34'')))
           ''10.0.0.2'' 0 ''tcp'' None ''ef56'')))) = [80]"
  using get_summary_excludes_port_0
    [where s = "\<lparr>rows = [\<lparr>item_id = 1, item_ip = ''10.0.0.1'', item_port = 80, item_protocol = ''tcp'',
                          item_note = None, item_hash = ''ab12''\<rparr>,
                        \<lparr>item_id = 2, item_ip = ''10.0.0.1'', item_port = 53, item_protocol = ''udp'',
                          item_note = None, item_hash = ''cd34''\<rparr>,
                        \<lparr>item_id = 3, item_ip = ''10.0.0.2'', item_port = 0, item_protocol = ''tcp'',
                          item_note = None, item_hash = ''ef56''\<rparr>],
               last_id = 3, faulty = False\<rparr>"
       and v = example_validate and A = "''10.0.0.1''" and B = "''10.0.0.2''"
       and ?h1.0 = "''ab12''" and ?h2.0 = "''cd34''" and ?h3.0 = "''ef56''"
       and ?n1.0 = None and ?n2.0 = None and ?n3.0 = None]
  by (simp add: example_validate_def get_summary_def execute_sql_def sql_distinct_def)

subsection \<open>Keyword search\<close>











subsection \<open>Attack items\<close>

lemma str_split_not_Nil: "str_split d s \<noteq> []"
  by (induction s) (auto split: list.splits)

lemma str_split_no_delimiter: "d \<notin> set x \<Longrightarrow> str_split d x = [x]"
  by (induction x) auto

lemma str_split_piece:
  "d \<notin> set x \<Longrightarrow> str_split d (x @ d # rest) = x # str_split d rest"
  by (induction x) auto

lemma str_split_join:
  "xs \<noteq> [] \<Longrightarrow> list_all (\<lambda>x. d \<notin> set x) xs \<Longrightarrow> str_split d (str_join [d] xs) = xs"
proof (induction "[d]" xs rule: str_join.induct)
  case 1
  then show ?case by simp
next
  case (2 x)
  then show ?case by (simp add: str_split_no_delimiter)
next
  case (3 x y ys)
  then show ?case by (simp add: str_split_piece)
qed

lemma attacks_wf_new_store: "attacks_wf new_store"
  by (simp add: attacks_wf_def new_store_def)

lemma attacks_wf_create_attack:
  "attacks_wf s \<Longrightarrow> attacks_wf (snd (create_attack s name description items))"
  by (auto simp: attacks_wf_def create_attack_def sql_insert_def list_all_iff)

lemma attacks_wf_update_attack_hosts:
  "attacks_wf s \<Longrightarrow> attacks_wf (snd (update_attack_hosts s aid items))"
  by (auto simp: attacks_wf_def update_attack_hosts_def sql_update_def list_all_iff)

lemma fetchone_filter_append_new:
  "list_all (\<lambda>r. \<not> P r) rs \<Longrightarrow> P r \<Longrightarrow> fetchone (filter P (rs @ [r])) = Some r"
  by (induction rs) (simp_all add: fetchone_def)

lemma fetchone_filter_update:
  assumes "list_ex P rs" and "\<And>r. P r \<Longrightarrow> P (f r)"
  shows "\<exists>r. P r \<and> fetchone (filter P (map (\<lambda>r. if P r then f r else r) rs)) = Some (f r)"
  using assms(1)
proof (induction rs)
  case Nil
  then show ?case by simp
next
  case (Cons a rs)
  show ?case
  proof (cases "P a")
    case True
    then show ?thesis using assms(2) by (auto simp: fetchone_def)
  next
    case False
    with Cons show ?thesis by (auto simp: fetchone_def)
  qed
qed

text \<open>
  C5 (as stated, refuted). The claim covers every list of references, the empty list
  included. An attack created with no reference stores the empty string, and splitting
  the empty string gives one empty reference, not the empty list.
\<close>

theorem attack_items_empty_counterexample:
  "map_option (\<lambda>a. str_split CHR '','' (attack_items a))
      (get_attack (snd (create_attack new_store ''smb'' ''null session'' [])) 1) = Some [[]]
   \<and> map_option (\<lambda>a. str_split CHR '','' (attack_items a))
      (get_attack (snd (create_attack new_store ''smb'' ''null session'' [])) 1) \<noteq> Some []"
  by (simp add: get_attack_def create_attack_def sql_insert_def new_store_def execute_sql_def
      fetchone_def)

text \<open>
  C5 (amended). For every non-empty list of item references none of which contains the
  comma (the references themselves may be empty or not), on an attack store whose engine
  executes and whose ids come from the autoincrement counter: \<^verbatim>\<open>create_attack\<close> returns
  \<^verbatim>\<open>True\<close>, \<^verbatim>\<open>get_attack\<close> with the new id finds the row, and splitting its items
  field on the comma gives the list back, in order; and when a row with id \<open>aid\<close> exists,
  the same holds for \<^verbatim>\<open>update_attack_hosts\<close> followed by \<^verbatim>\<open>get_attack\<close> with \<open>aid\<close>.
\<close>

theorem attack_items_round_trip:
  assumes "items \<noteq> []" and "\<forall>x \<in> set items. CHR '','' \<notin> set x"
    and "\<not> faulty s" and "attacks_wf s"
  shows "fst (create_attack s name description items)
       \<and> (\<exists>a. get_attack (snd (create_attack s name description items)) (Suc (last_id s)) = Some a
              \<and> attack_name a = name \<and> attack_description a = description
              \<and> str_split CHR '','' (attack_items a) = items)
       \<and> (list_ex (\<lambda>a. attack_id a = aid) (rows s) \<longrightarrow>
            fst (update_attack_hosts s aid items)
          \<and> (\<exists>a. get_attack (snd (update_attack_hosts s aid items)) aid = Some a
                 \<and> str_split CHR '','' (attack_items a) = items))"
proof -
  from assms(1,2) have rt: "str_split CHR '','' (str_join '','' items) = items"
    using str_split_join [of items "CHR '',''"] by (simp add: list_all_iff)
  let ?new = "\<lparr>attack_id = Suc (last_id s), attack_name = name,
               attack_description = description,
               attack_items = str_join '','' items, attack_note = ''''\<rparr>"
  from assms(4) have "list_all (\<lambda>a. \<not> attack_id a = Suc (last_id s)) (rows s)"
    by (auto simp: attacks_wf_def list_all_iff)
  then have "fetchone (filter (\<lambda>a. attack_id a = Suc (last_id s)) (rows s @ [?new])) = Some ?new"
    by (rule fetchone_filter_append_new) simp
  with assms(3) have
    c: "get_attack (snd (create_attack s name description items)) (Suc (last_id s)) = Some ?new"
    by (simp add: get_attack_def create_attack_def execute_sql_def sql_insert_def)
  have u: "\<exists>a. get_attack (snd (update_attack_hosts s aid items)) aid = Some a
                 \<and> str_split CHR '','' (attack_items a) = items"
    if "list_ex (\<lambda>a. attack_id a = aid) (rows s)"
  proof -
    have "\<exists>r. attack_id r = aid \<and> fetchone (filter (\<lambda>a. attack_id a = aid)
        (map (\<lambda>a. if attack_id a = aid then a\<lparr>attack_items := str_join '','' items\<rparr> else a)
          (rows s))) = Some (r\<lparr>attack_items := str_join '','' items\<rparr>)"
      using that by (rule fetchone_filter_update) simp
    then obtain r where "fetchone (filter (\<lambda>a. attack_id a = aid)
        (map (\<lambda>a. if attack_id a = aid then a\<lparr>attack_items := str_join '','' items\<rparr> else a)
          (rows s))) = Some (r\<lparr>attack_items := str_join '','' items\<rparr>)"
      by auto
    with assms(3) rt show ?thesis
      by (simp add: get_attack_def update_attack_hosts_def execute_sql_def sql_update_def)
  qed
  from assms(3) have "fst (create_attack s name description items)"
    and "fst (update_attack_hosts s aid items)"
    by (simp_all add: create_attack_def update_attack_hosts_def execute_sql_def)
  with c rt u show ?thesis by simp
qed

theorem attack_items_round_trip_witness:
  "attacks_wf (new_store :: attack store) \<and> \<not> faulty (new_store :: attack store)
   \<and> map_option (\<lambda>a. str_split CHR '','' (attack_items a))
       (get_attack (snd (create_attack new_store ''smb'' ''null session''
          [''10.0.0.1'', ''10.0.0.2''])) 1) = Some [''10.0.0.1'', ''10.0.0.2'']
   \<and> map_option attack_items
       (get_attack (snd (create_attack new_store ''smb'' ''null session''
          [''10.0.0.1'', ''10.0.0.2''])) 1) = Some ''10.0.0.1,10.0.0.2''
   \<and> list_ex (\<lambda>a. attack_id a = 1)
       (rows \<lparr>rows = [\<lparr>attack_id = 1, attack_name = ''smb'', attack_description = ''null session'',
                        attack_items = ''10.0.0.1,10.0.0.2'', attack_note = ''''\<rparr>],
              last_id = 1, faulty = False\<rparr>)
   \<and> map_option (\<lambda>a. str_split CHR '','' (attack_items a))
       (get_attack (snd (update_attack_hosts
          \<lparr>rows = [\<lparr>attack_id = 1, attack_name = ''smb'', attack_description = ''null session'',
                     attack_items = ''10.0.0.1,10.0.0.2'', attack_note = ''''\<rparr>],
           last_id = 1, faulty = False\<rparr> 1 [''10.0.0.3''])) 1) = Some [''10.0.0.3'']"
  using attack_items_round_trip
      [of "[''10.0.0.1'', ''10.0.0.2'']" new_store "''smb''" "''null session''" 1]
    attack_items_round_trip
      [of "[''10.0.0.3'']"
          "\<lparr>rows = [\<lparr>attack_id = 1, attack_name = ''smb'', attack_description = ''null session'',
                     attack_items = ''10.0.0.1,10.0.0.2'', attack_note = ''''\<rparr>],
           last_id = 1, faulty = False\<rparr>" "''smb''" "''null session''" 1]
  by (simp add: attacks_wf_def new_store_def get_attack_def create_attack_def
      update_attack_hosts_def sql_insert_def sql_update_def execute_sql_def fetchone_def)

subsection \<open>Dataset statistics\<close>

lemma get_stats_format:
  "get_stats d = ''Hosts: '' @ str_nat (length (get_hosts (hostdb d))) @ ''  Attacks ''
                   @ str_nat (length (get_attacks (attackdb d)))"
  by (simp add: get_stats_def)

text \<open>
  C9 (the code departs from the claim). The numbers are the ones the claim names, the
  distinct host addresses and the attacks, but the text has no colon after
  \<^verbatim>\<open>Attacks\<close>. Evaluated on a dataset with the host \<^verbatim>\<open>10.0.0.1\<close> created twice,
  the host \<^verbatim>\<open>10.0.0.2\<close> and one attack: the result is \<^verbatim>\<open>Hosts: 2  Attacks 1\<close>, not
  \<^verbatim>\<open>Hosts: 2  Attacks: 1\<close>.
\<close>

theorem get_stats_missing_colon:
  "get_stats \<lparr>itemdb = new_store,
              attackdb = snd (create_attack new_store ''smb'' ''null session'' [''10.0.0.1'']),
              hostdb = create_hosts new_store [''10.0.0.1'', ''10.0.0.2'', ''10.0.0.1''],
              importdb = new_store\<rparr> = ''Hosts: 2  Attacks 1''
   \<and> get_stats \<lparr>itemdb = new_store,
              attackdb = snd (create_attack new_store ''smb'' ''null session'' [''10.0.0.1'']),
              hostdb = create_hosts new_store [''10.0.0.1'', ''10.0.0.2'', ''10.0.0.1''],
              importdb = new_store\<rparr> \<noteq> ''Hosts: 2  Attacks: 1''"
  by (simp add: get_stats_def get_hosts_def get_attacks_def create_attack_def create_host_def
      sql_insert_def new_store_def execute_sql_def sql_distinct_def str_nat.simps
      digit_char_def)

subsection \<open>Project registry\<close>

lemma delete_project_no_row:
  assumes "\<not> list_ex (\<lambda>p. project_id p = pid) (rows (registry w))"
  shows "delete_project w pid
           = (Some (if faulty (registry w) then ValueError else TypeError), w, [])"
proof -
  from assms have "filter (\<lambda>p. project_id p = pid) (rows (registry w)) = []"
    by (auto simp: filter_empty_conv list_ex_iff)
  then show ?thesis
    by (simp add: delete_project_def get_project_def execute_sql_def fetchone_def)
qed

text \<open>
  C3 (the code departs from the claim). With no registry row for the project id,
  \<^verbatim>\<open>delete_project\<close> does not log the failed lookup and return: unpacking the
  \<^verbatim>\<open>None\<close> that \<^verbatim>\<open>get_project\<close> returns raises \<^verbatim>\<open>TypeError\<close> before anything is
  logged. The registry and the files are as before. Evaluated on the empty registry with one
  unrelated file and the project id 1.
\<close>

theorem delete_project_no_row_raises:
  "delete_project \<lparr>registry = new_store, files = [''data/0123456789ab.sqlite'' \<mapsto> empty_scandb]\<rparr> 1
     = (Some TypeError,
        \<lparr>registry = new_store, files = [''data/0123456789ab.sqlite'' \<mapsto> empty_scandb]\<rparr>,
        [])"
  by (simp add: delete_project_def get_project_def execute_sql_def fetchone_def new_store_def)

lemma delete_project_null_name:
  "delete_project
      \<lparr>registry = \<lparr>rows = [\<lparr>project_id = 1, project_name = None, project_note = None,
                              project_dbfile = ''data/0123456789ab.sqlite''\<rparr>],
                   last_id = 1, faulty = False\<rparr>,
       files = [''data/0123456789ab.sqlite'' \<mapsto> empty_scandb]\<rparr> 1
     = (None, \<lparr>registry = \<lparr>rows = [], last_id = 1, faulty = False\<rparr>, files = Map.empty\<rparr>,
        [Could_not_find_project 1])"
  by (simp add: delete_project_def get_project_def execute_sql_def fetchone_def sql_delete_def
      delete_file_def)

lemma random_token_Cons:
  "random_token rnd = random_choice ''0123456789abcdef'' (rnd 0)
      # map (\<lambda>k. random_choice ''0123456789abcdef'' (rnd k)) [1..<12]"
  unfolding random_token_def by (subst upt_rec) simp

lemma random_choice_hex: "random_choice ''0123456789abcdef'' r \<in> set ''0123456789abcdef''"
  unfolding random_choice_def by (rule nth_mem) simp

lemma db_path_eq: "db_path rnd = ''data/'' @ random_token rnd @ ''.sqlite''"
proof -
  have "random_choice ''0123456789abcdef'' (rnd 0) \<noteq> CHR ''/''"
    using random_choice_hex [of "rnd 0"] by auto
  then show ?thesis
    by (simp add: db_path_def os_path_join_def random_token_Cons)
qed

lemma db_path_inj: "db_path r1 = db_path r2 \<longleftrightarrow> random_token r1 = random_token r2"
  by (simp add: db_path_eq)

lemma random_choice_hex_eq:
  "random_choice ''0123456789abcdef'' a = random_choice ''0123456789abcdef'' b
     \<longleftrightarrow> a mod 16 = b mod 16"
proof -
  have "distinct ''0123456789abcdef''" by simp
  moreover have "a mod 16 < length ''0123456789abcdef''" "b mod 16 < length ''0123456789abcdef''"
    by simp_all
  ultimately have "''0123456789abcdef'' ! (a mod 16) = ''0123456789abcdef'' ! (b mod 16)
     \<longleftrightarrow> a mod 16 = b mod 16"
    by (rule nth_eq_iff_index_eq)
  then show ?thesis by (simp add: random_choice_def)
qed

lemma random_token_eq:
  "random_token r1 = random_token r2 \<longleftrightarrow> (\<forall>k<12. r1 k mod 16 = r2 k mod 16)"
  by (auto simp: random_token_def random_choice_hex_eq)

lemma ScanDatabase_keeps:
  "ScanDatabase fs filename = Inr fs' \<Longrightarrow> fs' filename \<noteq> None \<and> (\<forall>p. fs p \<noteq> None \<longrightarrow> fs' p \<noteq> None)"
  by (auto simp: ScanDatabase_def split: option.splits if_splits)

lemma create_project_True:
  assumes "fst (create_project w name rnd)"
  shows "registry (snd (create_project w name rnd))
           = sql_insert (\<lambda>i. \<lparr>project_id = i, project_name = name, project_note = None,
                                project_dbfile = db_path rnd\<rparr>) (registry w)"
    and "\<not> faulty (registry w)"
    and "files (snd (create_project w name rnd)) (db_path rnd) \<noteq> None"
    and "files w p \<noteq> None \<Longrightarrow> files (snd (create_project w name rnd)) p \<noteq> None"
proof -
  obtain fs where fs: "ScanDatabase (files w) (db_path rnd) = Inr fs"
    using assms by (cases "ScanDatabase (files w) (db_path rnd)")
      (auto simp: create_project_def Let_def split: db_exception.splits)
  with assms have ok: "execute_sql True (registry w)"
    by (auto simp: create_project_def Let_def split: if_splits)
  with fs show "registry (snd (create_project w name rnd))
           = sql_insert (\<lambda>i. \<lparr>project_id = i, project_name = name, project_note = None,
                                project_dbfile = db_path rnd\<rparr>) (registry w)"
    by (simp add: create_project_def Let_def)
  from ok show "\<not> faulty (registry w)" by (simp add: execute_sql_def)
  from fs ok have f: "files (snd (create_project w name rnd)) = fs"
    by (simp add: create_project_def Let_def)
  from ScanDatabase_keeps [OF fs] f
  show "files (snd (create_project w name rnd)) (db_path rnd) \<noteq> None" by simp
  from ScanDatabase_keeps [OF fs] f
  show "files w p \<noteq> None \<Longrightarrow> files (snd (create_project w name rnd)) p \<noteq> None" by simp
qed

text \<open>
  C4 (as stated, refuted). The claim says that two successful \<^verbatim>\<open>create_project\<close> calls
  give distinct store paths whatever the random generator returns. When the twelve draws
  of the second call repeat those of the first, both calls return \<^verbatim>\<open>True\<close> and the
  registry holds two rows with one path.
\<close>

theorem create_project_same_token_counterexample:
  "fst (create_project empty_world (Some ''alpha'') (\<lambda>k. 0))
   \<and> fst (create_project (snd (create_project empty_world (Some ''alpha'') (\<lambda>k. 0)))
            (Some ''beta'') (\<lambda>k. 0))
   \<and> map project_dbfile (rows (registry
         (snd (create_project (snd (create_project empty_world (Some ''alpha'') (\<lambda>k. 0)))
            (Some ''beta'') (\<lambda>k. 0)))))
       = [''data/000000000000.sqlite'', ''data/000000000000.sqlite'']"
proof -
  have p: "db_path (\<lambda>k. 0) = ''data/000000000000.sqlite''"
    by code_simp
  show ?thesis
    by (simp add: create_project_def p ScanDatabase_def empty_world_def empty_scandb_def
        new_store_def execute_sql_def sql_insert_def Let_def)
qed

text \<open>
  C4 (amended). Two successful \<^verbatim>\<open>create_project\<close> calls, one after the other, append
  two rows to the registry, each with the path \<^verbatim>\<open>data/<token>.sqlite\<close> of its own twelve
  draws, and both files exist afterwards. The two paths are distinct exactly when the two
  tokens differ, that is when some draw of the second call picks another hexadecimal digit
  than the same draw of the first; \<^verbatim>\<open>create_project\<close> does not compare a new path with
  the paths in the registry.
\<close>

theorem create_project_paths:
  fixes w :: world and n1 n2 :: "string option" and r1 r2 :: "nat \<Rightarrow> nat"
  defines "w1 \<equiv> snd (create_project w n1 r1)"
  defines "w2 \<equiv> snd (create_project w1 n2 r2)"
  assumes "fst (create_project w n1 r1)" and "fst (create_project w1 n2 r2)"
  shows "rows (registry w2)
           = rows (registry w)
             @ [\<lparr>project_id = Suc (last_id (registry w)), project_name = n1,
                  project_note = None, project_dbfile = db_path r1\<rparr>,
                \<lparr>project_id = Suc (Suc (last_id (registry w))), project_name = n2,
                  project_note = None, project_dbfile = db_path r2\<rparr>]
       \<and> db_path r1 = ''data/'' @ random_token r1 @ ''.sqlite''
       \<and> db_path r2 = ''data/'' @ random_token r2 @ ''.sqlite''
       \<and> files w2 (db_path r1) \<noteq> None \<and> files w2 (db_path r2) \<noteq> None
       \<and> (db_path r1 \<noteq> db_path r2 \<longleftrightarrow> random_token r1 \<noteq> random_token r2)
       \<and> (random_token r1 \<noteq> random_token r2 \<longleftrightarrow> (\<exists>k<12. r1 k mod 16 \<noteq> r2 k mod 16))"
proof -
  note a = create_project_True [OF assms(3)]
  note b = create_project_True [OF assms(4)]
  have "rows (registry w2)
           = rows (registry w)
             @ [\<lparr>project_id = Suc (last_id (registry w)), project_name = n1,
                  project_note = None, project_dbfile = db_path r1\<rparr>,
                \<lparr>project_id = Suc (Suc (last_id (registry w))), project_name = n2,
                  project_note = None, project_dbfile = db_path r2\<rparr>]"
    unfolding w2_def b(1) unfolding w1_def a(1) by (simp add: sql_insert_def)
  moreover have "files w2 (db_path r2) \<noteq> None"
    unfolding w2_def by (rule b(3))
  moreover have "files w2 (db_path r1) \<noteq> None"
    unfolding w2_def by (rule b(4)) (simp add: w1_def a(3))
  moreover have "random_token r1 \<noteq> random_token r2 \<longleftrightarrow> (\<exists>k<12. r1 k mod 16 \<noteq> r2 k mod 16)"
    by (auto simp: random_token_eq)
  ultimately show ?thesis by (simp add: db_path_eq)
qed

theorem create_project_paths_witness:
  "fst (create_project empty_world (Some ''alpha'') (\<lambda>k. k))
   \<and> fst (create_project (snd (create_project empty_world (Some ''alpha'') (\<lambda>k. k)))
            (Some ''beta'') (\<lambda>k. Suc k))
   \<and> rows (registry
         (snd (create_project (snd (create_project empty_world (Some ''alpha'') (\<lambda>k. k)))
            (Some ''beta'') (\<lambda>k. Suc k))))
       = [\<lparr>project_id = 1, project_name = Some ''alpha'', project_note = None,
            project_dbfile = ''data/0123456789ab.sqlite''\<rparr>,
          \<lparr>project_id = 2, project_name = Some ''beta'', project_note = None,
            project_dbfile = ''data/123456789abc.sqlite''\<rparr>]
   \<and> db_path (\<lambda>k. k) \<noteq> db_path (\<lambda>k. Suc k)"
proof -
  have p: "db_path (\<lambda>k. k) = ''data/0123456789ab.sqlite''"
    "db_path (\<lambda>k. Suc k) = ''data/123456789abc.sqlite''"
    by code_simp+
  have 1: "fst (create_project empty_world (Some ''alpha'') (\<lambda>k. k))"
    by (simp add: create_project_def p ScanDatabase_def empty_world_def empty_scandb_def
        new_store_def execute_sql_def sql_insert_def Let_def)
  have 2: "fst (create_project (snd (create_project empty_world (Some ''alpha'') (\<lambda>k. k)))
            (Some ''beta'') (\<lambda>k. Suc k))"
    by (simp add: create_project_def p ScanDatabase_def empty_world_def empty_scandb_def
        new_store_def execute_sql_def sql_insert_def Let_def)
  from create_project_paths [OF 1 2] 1 2 show ?thesis
    by (simp add: p empty_world_def new_store_def)
qed

end
